theory Spec2Isabelle
  imports Main "HOL-Library.Sublist" "HOL-Library.Char_ord" "HOL-Library.List_Lexorder"
    "HOL-Library.AList"
begin

section \<open>Moon Missions Records Dashboard (dash\_app.py)\<close>

text \<open>
  The dashboard loads a table of lunar missions once, normalises the Launch Date column and
  answers three kinds of request from the table: charts by country and year range, a bar
  chart of failures per country, and an export of the table. The functions of the source
  are embedded below under their own names. The module's globals (\<open>data\<close>,
  \<open>min_allowed_year\<close>, \<open>max_allowed_year\<close>, \<open>fail\<close>, \<open>allowed_fails\<close>) are passed to
  the functions that read them, and so is what the functions take from pandas, Python's
  \<open>re\<close> and the clock.
\<close>

subsection \<open>Exceptions\<close>

text \<open>
  A Python exception is a value. \<open>Inl e\<close> is an exception that leaves the function,
  \<open>Inr v\<close> a returned value.
\<close>

datatype exn = ValueError | IndexError | TypeError | AttributeError | ReError | OtherError

subsection \<open>Timestamps and the date normaliser\<close>

text \<open>
  A pandas Timestamp with its calendar and clock fields. \<open>NaT\<close> is the missing
  timestamp, \<open>NaN\<close> the float that \<open>validate_date_input\<close> returns from its handler.
\<close>

record timestamp =
  year :: int
  month :: nat
  day :: nat
  hour :: nat
  minute :: nat
  second :: nat
  microsecond :: nat
  nanosecond :: nat

datatype date_value = Timestamp timestamp | NaT | NaN

definition is_leap :: "int \<Rightarrow> bool" where
  "is_leap y = (y mod 4 = 0 \<and> (y mod 100 \<noteq> 0 \<or> y mod 400 = 0))"

definition days_in_month :: "int \<Rightarrow> nat \<Rightarrow> nat" where
  "days_in_month y m =
     (if m = 2 then (if is_leap y then 29 else 28)
      else if m \<in> {4, 6, 9, 11} then 30 else 31)"

text \<open>
  \<open>parsed_date.replace(year=y)\<close> keeps every other field and raises ValueError when the
  day does not exist in the new year (29 February of a year that is not a leap year).
\<close>

definition replace_year :: "timestamp \<Rightarrow> int \<Rightarrow> exn + timestamp" where
  "replace_year ts y =
     (if day ts \<le> days_in_month y (month ts) then Inr (ts\<lparr>year := y\<rparr>) else Inl ValueError)"

text \<open>
  \<^verbatim>\<open>
  def validate_date_input(date):
      try:
          parsed_date = pd.to_datetime(date)
          if parsed_date.year > 2023:
              parsed_date = parsed_date.replace(year=parsed_date.year - 100)
          return parsed_date
      except ValueError:
          return np.nan
  \<close>
  \<open>pd.to_datetime\<close> belongs to pandas, so it is a parameter: it raises, returns
  \<open>NaT\<close> (\<open>None\<close> here) or returns a Timestamp. The year of \<open>NaT\<close> is a float NaN,
  which is not greater than 2023, so \<open>NaT\<close> is returned as it is. The handler catches
  ValueError only; any other exception leaves the function.
\<close>

definition validate_date_input ::
  "(string \<Rightarrow> exn + timestamp option) \<Rightarrow> string \<Rightarrow> exn + date_value" where
  "validate_date_input to_datetime date =
     (case (case to_datetime date of
              Inl e \<Rightarrow> Inl e
            | Inr None \<Rightarrow> Inr NaT
            | Inr (Some parsed_date) \<Rightarrow>
                if year parsed_date > 2023
                then (case replace_year parsed_date (year parsed_date - 100) of
                        Inl e \<Rightarrow> Inl e
                      | Inr replaced \<Rightarrow> Inr (Timestamp replaced))
                else Inr (Timestamp parsed_date))
      of Inl e \<Rightarrow> (if e = ValueError then Inr NaN else Inl e)
       | Inr v \<Rightarrow> Inr v)"

text \<open>
  What pandas promises of \<open>pd.to_datetime\<close> on a string: a Timestamp is a calendar date
  between \<open>Timestamp.min\<close> (in 1677) and \<open>Timestamp.max\<close> (in 2262), and a string that
  cannot be parsed, or lies outside these bounds, raises a ValueError (ParserError and
  OutOfBoundsDatetime are subclasses of it).
\<close>

definition valid_timestamp :: "timestamp \<Rightarrow> bool" where
  "valid_timestamp ts =
     (1677 \<le> year ts \<and> year ts \<le> 2262 \<and> 1 \<le> month ts \<and> month ts \<le> 12
      \<and> 1 \<le> day ts \<and> day ts \<le> days_in_month (year ts) (month ts))"

definition to_datetime_contract :: "(string \<Rightarrow> exn + timestamp option) \<Rightarrow> bool" where
  "to_datetime_contract to_datetime =
     (\<forall>s. case to_datetime s of
            Inl e \<Rightarrow> e = ValueError
          | Inr None \<Rightarrow> True
          | Inr (Some ts) \<Rightarrow> valid_timestamp ts)"

subsection \<open>The table\<close>

text \<open>
  One row of \<open>data\<close> after line 49 of the source. A cell that is empty in the file is
  \<open>None\<close> (NaN in a text column, NaT in Launch Date). The table is the list of its rows
  in file order.
\<close>

record mission =
  launch_date :: "timestamp option"
  operator :: "string option"
  mission_type :: "string option"
  outcome :: "string option"
  additional_information :: "string option"

text \<open>
  \<open>df[df[col].str.contains(pat)]\<close>, for a table \<open>df\<close> cut from \<open>data\<close>.
  \<^item> The \<open>.str\<close> accessor exists on a text column only. A column of \<open>data\<close> in which
    no cell holds a string is read from the file as a column of floats, and \<open>.str\<close> on
    it raises AttributeError, also on a table without rows cut from it. The columns of a
    file without rows are text columns.
  \<^item> pandas compiles \<open>pat\<close> as a regular expression. A pattern without
    regular-expression characters matches exactly the strings that contain it. For any
    other pattern the compiler of Python's \<open>re\<close> is a parameter, \<open>re_compile\<close>: it
    raises, or returns what the compiled pattern finds in a string.
  \<^item> A missing cell gives NaN in the mask, and indexing with such a mask raises
    ValueError.
\<close>

definition text_column :: "mission list \<Rightarrow> (mission \<Rightarrow> string option) \<Rightarrow> bool" where
  "text_column data col = (data = [] \<or> (\<exists>r \<in> set data. col r \<noteq> None))"

definition regex_free :: "string \<Rightarrow> bool" where
  "regex_free pat = (\<forall>c \<in> set pat. c \<notin> set (CHR 0x5C # ''.^$*+?{}[]|()''))"

definition str_contains :: "string \<Rightarrow> string \<Rightarrow> bool" where
  "str_contains pat s = sublist pat s"

definition compile_pattern ::
  "(string \<Rightarrow> exn + (string \<Rightarrow> bool)) \<Rightarrow> string \<Rightarrow> exn + (string \<Rightarrow> bool)" where
  "compile_pattern re_compile pat =
     (if regex_free pat then Inr (str_contains pat) else re_compile pat)"

definition contains_rows ::
  "(string \<Rightarrow> exn + (string \<Rightarrow> bool)) \<Rightarrow> mission list \<Rightarrow> (mission \<Rightarrow> string option)
     \<Rightarrow> string \<Rightarrow> mission list \<Rightarrow> exn + mission list" where
  "contains_rows re_compile data col pat df =
     (if \<not> text_column data col then Inl AttributeError
      else (case compile_pattern re_compile pat of
              Inl e \<Rightarrow> Inl e
            | Inr found \<Rightarrow>
                if \<exists>r \<in> set df. col r = None then Inl ValueError
                else Inr (filter (\<lambda>r. case col r of None \<Rightarrow> False | Some s \<Rightarrow> found s) df)))"

text \<open>\<open>Series.unique()\<close>: the distinct cells in order of first appearance, NaN among them.\<close>

fun unique :: "'a list \<Rightarrow> 'a list" where
  "unique [] = []"
| "unique (x # xs) = x # unique (filter (\<lambda>y. y \<noteq> x) xs)"

text \<open>
  \<open>Series.value_counts()\<close>: the number of rows per cell, missing cells dropped, the
  larger counts first. \<open>value_counts\<close> reads the result by label; \<open>counts_descending\<close>
  is the column of its counts, from the first row to the last.
\<close>

definition value_counts :: "'a option list \<Rightarrow> ('a \<rightharpoonup> nat)" where
  "value_counts xs = (\<lambda>v. if Some v \<in> set xs then Some (count_list xs (Some v)) else None)"

definition counts_descending :: "'a option list \<Rightarrow> nat list" where
  "counts_descending xs =
     rev (sort (map (\<lambda>v. count_list xs (Some v)) (unique (List.map_filter (\<lambda>x. x) xs))))"

subsection \<open>Allow-lists and the failure table\<close>

definition allowed_countries :: "string list" where
  "allowed_countries =
     [''All Countries'', ''United States'', ''Soviet Union'', ''Japan'', ''European Union'',
      ''China'', ''India'', ''Luxembourg'', ''Israel'', ''South Korea'', ''Italy'', ''UAE'',
      ''Russia'']"

definition allowed_file_formats :: "string list" where
  "allowed_file_formats = [''csv'', ''json'', ''excel'']"

text \<open>
  \<^verbatim>\<open>
  fail = data[data['Outcome'].str.contains('fail')].copy()
  allowed_fails = fail['Outcome'].unique()
  for i, name in enumerate(allowed_fails):
      allowed_fails[i] = name.split(' ')[0]
  \<close>
\<close>

definition fail_rows ::
  "(string \<Rightarrow> exn + (string \<Rightarrow> bool)) \<Rightarrow> mission list \<Rightarrow> exn + mission list" where
  "fail_rows re_compile data = contains_rows re_compile data outcome ''fail'' data"

definition first_word :: "string \<Rightarrow> string" where
  "first_word name = takeWhile (\<lambda>c. c \<noteq> CHR '' '') name"

definition allowed_fails_of :: "mission list \<Rightarrow> string list" where
  "allowed_fails_of fail = map first_word (unique (List.map_filter outcome fail))"

subsection \<open>Chart builders\<close>

record pie_chart =
  pie_counts :: "string \<rightharpoonup> nat"
  pie_title :: string

record scatter_plot =
  scatter_x :: "timestamp option list"
  scatter_y :: "nat list"
  scatter_title :: string

record bar_chart =
  bar_x :: "string list"
  bar_y :: "nat list"
  bar_title :: string

text \<open>
  A frame of counts: the row labels, the column labels, and one list of cells per column,
  in the order of the row labels.
\<close>

record matrix =
  matrix_index :: "string option list"
  matrix_columns :: "string option list"
  matrix_values :: "int list list"

record heatmap =
  heat_matrix :: matrix
  heat_title :: string

definition create_pie :: "(string \<rightharpoonup> nat) \<Rightarrow> string \<Rightarrow> pie_chart" where
  "create_pie df title = \<lparr>pie_counts = df, pie_title = title\<rparr>"

text \<open>
  \<^verbatim>\<open>
  def create_scatter(df, title):
      return dcc.Graph(figure=px.scatter(
          x=df["Launch Date"].unique(),
          y=df['Launch Date'].value_counts(),
          title=title).update_layout(...))
  \<close>
  \<open>px.scatter\<close> pairs \<open>x\<close> and \<open>y\<close> by position: the distinct dates in row order
  (NaT among them), against the counts in descending order. It raises ValueError when
  both are empty, and when their lengths differ.
\<close>

definition create_scatter :: "mission list \<Rightarrow> string \<Rightarrow> exn + scatter_plot" where
  "create_scatter df title =
     (let x = unique (map launch_date df);
          y = counts_descending (map launch_date df)
      in if x = [] \<or> length x \<noteq> length y then Inl ValueError
         else Inr \<lparr>scatter_x = x, scatter_y = y, scatter_title = title\<rparr>)"

definition create_bar :: "(string \<times> nat) list \<Rightarrow> bar_chart" where
  "create_bar cd = \<lparr>bar_x = map fst cd, bar_y = map snd cd, bar_title = ''Number of fails''\<rparr>"

definition create_heatmap :: "matrix \<Rightarrow> heatmap" where
  "create_heatmap df = \<lparr>heat_matrix = df, heat_title = ''Mission Type vs. Mission Outcome''\<rparr>"

text \<open>
  \<^verbatim>\<open>
  def create_matrix_for_heatmap(df):
      series = df.groupby('Outcome')['Mission Type'].value_counts()
      ne = pd.DataFrame(0, columns=data['Outcome'].unique(),
                        index=data['Mission Type'].unique())
      for column in ne.columns:
          if column in series.keys():
              ne[column] = ne[column] + series[column]
      return ne.fillna(0).astype(int)
  \<close>
  \<open>series\<close> counts the rows of \<open>df\<close> per (Outcome, Mission Type), rows with a missing
  cell in either column dropped. \<open>in_series_keys\<close> is \<open>column in series.keys()\<close>,
  \<open>series_at\<close> is \<open>series[column]\<close>. The sum \<open>ne[column] + series[column]\<close> is aligned on
  the row labels: a label that \<open>series[column]\<close> lacks gives NaN, which \<open>fillna(0)\<close> turns
  into 0. Each turn of the loop writes its own column only.
\<close>

definition in_series_keys :: "mission list \<Rightarrow> string option \<Rightarrow> bool" where
  "in_series_keys df column =
     (case column of
        None \<Rightarrow> False
      | Some oc \<Rightarrow> (\<exists>r \<in> set df. outcome r = Some oc \<and> mission_type r \<noteq> None))"

definition series_at :: "mission list \<Rightarrow> string option \<Rightarrow> (string \<rightharpoonup> nat)" where
  "series_at df column =
     (\<lambda>t. let n = length (filter (\<lambda>r. outcome r = column \<and> mission_type r = Some t) df)
          in if column = None \<or> n = 0 then None else Some n)"

definition add_aligned ::
  "string option list \<Rightarrow> int list \<Rightarrow> (string \<rightharpoonup> nat) \<Rightarrow> int option list" where
  "add_aligned idx col s =
     map (\<lambda>(label, v). case label of
                         None \<Rightarrow> None
                       | Some t \<Rightarrow> (case s t of None \<Rightarrow> None | Some n \<Rightarrow> Some (v + int n)))
         (zip idx col)"

definition fillna0 :: "int option list \<Rightarrow> int list" where
  "fillna0 col = map (\<lambda>v. case v of None \<Rightarrow> 0 | Some n \<Rightarrow> n) col"

definition create_matrix_for_heatmap :: "mission list \<Rightarrow> mission list \<Rightarrow> matrix" where
  "create_matrix_for_heatmap data df =
     (let idx = unique (map mission_type data);
          cols = unique (map outcome data);
          zeros = map (\<lambda>_. 0) idx
      in \<lparr>matrix_index = idx,
          matrix_columns = cols,
          matrix_values =
            map (\<lambda>column. fillna0 (if in_series_keys df column
                                   then add_aligned idx zeros (series_at df column)
                                   else map Some zeros))
                cols\<rparr>)"

subsection \<open>Input validators\<close>

definition validate_country_input :: "string \<Rightarrow> string" where
  "validate_country_input v = (if v \<in> set allowed_countries then v else ''All Countries'')"

text \<open>
  \<^verbatim>\<open>
  def validate_year_range(start_year, end_year):
      if min_allowed_year <= start_year <= max_allowed_year and
         min_allowed_year <= end_year <= max_allowed_year:
          return [start_year, end_year]
      else:
          return [min_allowed_year, max_allowed_year]
  \<close>
  The slider sends whole years, so the bounds are Python integers.
\<close>

definition validate_year_range :: "int \<Rightarrow> int \<Rightarrow> int \<Rightarrow> int \<Rightarrow> int list" where
  "validate_year_range min_allowed_year max_allowed_year start_year end_year =
     (if (min_allowed_year \<le> start_year \<and> start_year \<le> max_allowed_year)
         \<and> (min_allowed_year \<le> end_year \<and> end_year \<le> max_allowed_year)
      then [start_year, end_year]
      else [min_allowed_year, max_allowed_year])"

text \<open>
  \<^verbatim>\<open>
  def validate_fail_input(value):
      if value in allowed_fails:
          return value
      else:
          return allowed_fails[0]
  \<close>
  \<open>allowed_fails[0]\<close> raises IndexError on an empty array.
\<close>

definition validate_fail_input :: "string list \<Rightarrow> string \<Rightarrow> exn + string" where
  "validate_fail_input allowed_fails v =
     (if v \<in> set allowed_fails then Inr v
      else (case allowed_fails of [] \<Rightarrow> Inl IndexError | f # _ \<Rightarrow> Inr f))"

subsection \<open>Charts by country and year range\<close>

text \<open>
  \<open>str(n)\<close> of a Python integer, and \<open>strftime("%Y")\<close> of a Timestamp (whose year has four
  digits). Python compares strings by code point, position by position, a proper prefix
  being smaller: the order of \<open>string\<close> from \<open>List_Lexorder\<close> and \<open>Char_ord\<close>.
\<close>

fun digits :: "nat \<Rightarrow> string" where
  "digits n = (if n < 10 then [char_of (48 + n)] else digits (n div 10) @ [char_of (48 + n mod 10)])"

declare digits.simps [simp del]

definition str_int :: "int \<Rightarrow> string" where
  "str_int i = (if i < 0 then CHR ''-'' # digits (nat (- i)) else digits (nat i))"

definition strftime_Y :: "timestamp \<Rightarrow> string" where
  "strftime_Y ts = str_int (year ts)"

text \<open>
  \<^verbatim>\<open>
  (data["Launch Date"].dt.strftime("%Y") >= str(entered_years[0])) &
  (data["Launch Date"].dt.strftime("%Y") <= str(entered_years[1]))
  \<close>
  A row without Launch Date has NaN for its year string, and both comparisons are False.
\<close>

definition year_mask :: "int list \<Rightarrow> mission \<Rightarrow> bool" where
  "year_mask entered_years r =
     (case launch_date r of
        None \<Rightarrow> False
      | Some ts \<Rightarrow> strftime_Y ts \<ge> str_int (entered_years ! 0)
                 \<and> strftime_Y ts \<le> str_int (entered_years ! 1))"

text \<open>
  The \<open>.dt\<close> accessor exists on a datetime column only. pandas stores Launch Date as a
  datetime column when the Timestamps of the table agree in their time zone, and as a
  column of objects otherwise; on the latter \<open>.dt\<close> raises AttributeError. The rows
  here carry no time zone, so the kind of the column is passed beside the table.
\<close>

datatype dtype = Datetime64 | Object

definition year_filter :: "dtype \<Rightarrow> mission list \<Rightarrow> int list \<Rightarrow> exn + mission list" where
  "year_filter launch_dtype data entered_years =
     (if launch_dtype = Datetime64 then Inr (filter (year_mask entered_years) data)
      else Inl AttributeError)"

datatype response = Charts pie_chart scatter_plot heatmap | Message string

text \<open>
  \<^verbatim>\<open>
  def get_charts_by_country(entered_country, entered_years):
      entered_country = validate_country_input(entered_country)
      entered_years = validate_year_range(*entered_years)
      try:
          year_df = data[...]
      except Exception as e:
          print(f"Error occurred: {str(e)}")
          return html.Div(html.P("An error occurred during data manipulation."))
      if entered_country == 'All Countries':
          pie_df = year_df['Outcome'].value_counts()
          return [create_pie(pie_df, 'Total Mission Outcomes'),
                  create_scatter(year_df, "Launch Date vs. Number of Launches in Total"),
                  create_heatmap(create_matrix_for_heatmap(year_df))]
      else:
          pie_df = year_df[year_df['Operator'].str.contains(entered_country)]['Outcome'].value_counts()
          country_df = year_df[year_df['Operator'].str.contains(entered_country)]
          return [create_pie(pie_df, f"Mission outcomes for {entered_country}"),
                  create_scatter(country_df, f"Launch Date vs. Number of Launches for {entered_country}"),
                  create_heatmap(create_matrix_for_heatmap(country_df))]
  \<close>
  \<open>charts_after_year_filter\<close> is the handler from the \<open>try\<close> on, given what the body of
  the \<open>try\<close> produced: only an exception of that body reaches the \<open>except\<close>. The
  elements of the returned list are built from left to right, so an exception of
  \<open>create_scatter\<close> leaves the handler. \<open>validate_year_range(*entered_years)\<close> raises
  TypeError unless the list has two elements.
\<close>

definition charts_after_year_filter ::
  "(string \<Rightarrow> exn + (string \<Rightarrow> bool)) \<Rightarrow> mission list \<Rightarrow> string \<Rightarrow> exn + mission list
     \<Rightarrow> exn + response" where
  "charts_after_year_filter re_compile data entered_country tried =
     (case tried of
        Inl e \<Rightarrow> Inr (Message ''An error occurred during data manipulation.'')
      | Inr year_df \<Rightarrow>
          if entered_country = ''All Countries''
          then (case create_scatter year_df ''Launch Date vs. Number of Launches in Total'' of
                  Inl e \<Rightarrow> Inl e
                | Inr scatter \<Rightarrow>
                    Inr (Charts
                      (create_pie (value_counts (map outcome year_df)) ''Total Mission Outcomes'')
                      scatter
                      (create_heatmap (create_matrix_for_heatmap data year_df))))
          else (case contains_rows re_compile data operator entered_country year_df of
                  Inl e \<Rightarrow> Inl e
                | Inr pie_rows \<Rightarrow>
                    (case contains_rows re_compile data operator entered_country year_df of
                       Inl e \<Rightarrow> Inl e
                     | Inr country_df \<Rightarrow>
                         (case create_scatter country_df
                                 (''Launch Date vs. Number of Launches for '' @ entered_country) of
                            Inl e \<Rightarrow> Inl e
                          | Inr scatter \<Rightarrow>
                              Inr (Charts
                                (create_pie (value_counts (map outcome pie_rows))
                                   (''Mission outcomes for '' @ entered_country))
                                scatter
                                (create_heatmap (create_matrix_for_heatmap data country_df)))))))"

definition get_charts_by_country ::
  "(string \<Rightarrow> exn + (string \<Rightarrow> bool)) \<Rightarrow> dtype \<Rightarrow> mission list \<Rightarrow> int \<Rightarrow> int \<Rightarrow> string
     \<Rightarrow> int list \<Rightarrow> exn + response" where
  "get_charts_by_country re_compile launch_dtype data min_allowed_year max_allowed_year
       entered_country entered_years =
     (case entered_years of
        [start_year, end_year] \<Rightarrow>
          charts_after_year_filter re_compile data (validate_country_input entered_country)
            (year_filter launch_dtype data
               (validate_year_range min_allowed_year max_allowed_year start_year end_year))
      | _ \<Rightarrow> Inl TypeError)"

subsection \<open>Bar chart of failures per country\<close>

text \<open>
  \<^verbatim>\<open>
  def get_bar_chart(entered_fail):
      entered_fail = validate_fail_input(entered_fail)
      choosen_fail = fail[fail['Outcome'].str.contains(entered_fail)]
      cd = {f'{c}': 0 for c in allowed_countries}
      for country in cd.keys():
          cd[country] = len(choosen_fail[choosen_fail['Operator'].str.contains(country)])
      return create_bar(cd)
  \<close>
  The dictionary is an association list in insertion order; storing under a key that is
  present keeps the key's place.
\<close>

fun count_loop ::
  "(string \<Rightarrow> exn + (string \<Rightarrow> bool)) \<Rightarrow> mission list \<Rightarrow> mission list \<Rightarrow> string list
     \<Rightarrow> (string \<times> nat) list \<Rightarrow> exn + (string \<times> nat) list" where
  "count_loop re_compile data choosen_fail [] cd = Inr cd"
| "count_loop re_compile data choosen_fail (country # rest) cd =
     (case contains_rows re_compile data operator country choosen_fail of
        Inl e \<Rightarrow> Inl e
      | Inr rows \<Rightarrow>
          count_loop re_compile data choosen_fail rest (AList.update country (length rows) cd))"

definition get_bar_chart ::
  "(string \<Rightarrow> exn + (string \<Rightarrow> bool)) \<Rightarrow> mission list \<Rightarrow> mission list \<Rightarrow> string list
     \<Rightarrow> string \<Rightarrow> exn + bar_chart" where
  "get_bar_chart re_compile data fail allowed_fails entered_fail =
     (case validate_fail_input allowed_fails entered_fail of
        Inl e \<Rightarrow> Inl e
      | Inr validated \<Rightarrow>
          (case contains_rows re_compile data outcome validated fail of
             Inl e \<Rightarrow> Inl e
           | Inr choosen_fail \<Rightarrow>
               (let cd = map (\<lambda>c. (c, 0)) allowed_countries
                in case count_loop re_compile data choosen_fail (map fst cd) cd of
                     Inl e \<Rightarrow> Inl e
                   | Inr counted \<Rightarrow> Inr (create_bar counted))))"

subsection \<open>Export\<close>

text \<open>
  \<open>str.lower()\<close> on the letters A to Z; no other character has a lower case among the
  letters of \<open>csv\<close>, \<open>json\<close> and \<open>excel\<close>.
\<close>

definition lower_char :: "char \<Rightarrow> char" where
  "lower_char c =
     (case map_of (zip ''ABCDEFGHIJKLMNOPQRSTUVWXYZ'' ''abcdefghijklmnopqrstuvwxyz'') c of
        None \<Rightarrow> c
      | Some l \<Rightarrow> l)"

definition lower :: "string \<Rightarrow> string" where
  "lower s = map lower_char s"

text \<open>
  \<^verbatim>\<open>
  def get_download(n_clicks, entered_file_format):
      if entered_file_format.lower() in allowed_file_formats:
          if entered_file_format.lower() == 'csv':
              return dcc.send_data_frame(data.to_csv, "Moonlanding.csv")
          elif entered_file_format.lower() == 'json':
              return dcc.send_data_frame(data.to_json, "Moonlanding.json")
          elif entered_file_format.lower() == 'excel':
              return dcc.send_data_frame(data.to_excel, "Moonlanding.xlsx")
      else:
          return None
  \<close>
  The three writers belong to pandas and are parameters. \<open>to_csv\<close> and \<open>to_json\<close>
  write the table as text and read nothing else. \<open>to_excel\<close> writes a workbook, whose
  properties record when it was made: it reads the clock, so it is given the time of the
  call beside the table. \<open>dcc.send_data_frame\<close> runs the writer on the table and pairs the
  content with the file name.
\<close>

record 'c download =
  content :: 'c
  filename :: string

definition send_data_frame :: "(mission list \<Rightarrow> 'c) \<Rightarrow> string \<Rightarrow> mission list \<Rightarrow> 'c download" where
  "send_data_frame writer name df = \<lparr>content = writer df, filename = name\<rparr>"

definition get_download ::
  "(mission list \<Rightarrow> 'c) \<Rightarrow> (mission list \<Rightarrow> 'c) \<Rightarrow> (nat \<Rightarrow> mission list \<Rightarrow> 'c) \<Rightarrow> mission list
     \<Rightarrow> nat \<Rightarrow> int \<Rightarrow> string \<Rightarrow> 'c download option" where
  "get_download to_csv to_json to_excel data now n_clicks entered_file_format =
     (if lower entered_file_format \<in> set allowed_file_formats
      then (if lower entered_file_format = ''csv''
            then Some (send_data_frame to_csv ''Moonlanding.csv'' data)
            else if lower entered_file_format = ''json''
            then Some (send_data_frame to_json ''Moonlanding.json'' data)
            else if lower entered_file_format = ''excel''
            then Some (send_data_frame (to_excel now) ''Moonlanding.xlsx'' data)
            else None)
      else None)"

subsection \<open>What the properties speak of\<close>

text \<open>
  Whether a row's Operator contains a country name; the number of rows of a table that do;
  the number of allow-listed names a row's Operator contains.
\<close>

definition operator_contains :: "string \<Rightarrow> mission \<Rightarrow> bool" where
  "operator_contains country r =
     (case operator r of None \<Rightarrow> False | Some s \<Rightarrow> str_contains country s)"

definition country_count :: "mission list \<Rightarrow> string \<Rightarrow> nat" where
  "country_count rows country = length (filter (operator_contains country) rows)"

definition matching_countries :: "mission \<Rightarrow> nat" where
  "matching_countries r = length (filter (\<lambda>c. operator_contains c r) allowed_countries)"

text \<open>
  The rows that lines 79 and 394 of the source keep: the rows of the table whose Outcome
  contains \<open>fail\<close> and in whose Outcome the compiled category finds a match
  (\<open>failures_found\<close>); for a category without regular-expression characters these are
  the rows whose Outcome contains \<open>fail\<close> and contains the category
  (\<open>matching_failures\<close>).
\<close>

definition failures_found :: "(string \<Rightarrow> bool) \<Rightarrow> mission list \<Rightarrow> mission list" where
  "failures_found found data =
     filter (\<lambda>r. case outcome r of
                   None \<Rightarrow> False
                 | Some s \<Rightarrow> str_contains ''fail'' s \<and> found s) data"

definition matching_failures :: "mission list \<Rightarrow> string \<Rightarrow> mission list" where
  "matching_failures data category =
     filter (\<lambda>r. case outcome r of
                   None \<Rightarrow> False
                 | Some s \<Rightarrow> str_contains ''fail'' s \<and> str_contains category s) data"

text \<open>
  The failure records as the specification words them: the rows whose Outcome contains
  \<open>fail\<close> and whose Outcome has the category as its prefix, the first word.
\<close>

definition prefix_failures :: "mission list \<Rightarrow> string \<Rightarrow> mission list" where
  "prefix_failures data category =
     filter (\<lambda>r. case outcome r of
                   None \<Rightarrow> False
                 | Some s \<Rightarrow> str_contains ''fail'' s \<and> first_word s = category) data"

text \<open>
  The number of rows of a table with a given Mission Type and a given Outcome; a missing
  label counts no row.
\<close>

definition pair_count :: "mission list \<Rightarrow> string option \<Rightarrow> string option \<Rightarrow> nat" where
  "pair_count df t oc =
     length (filter (\<lambda>r. t \<noteq> None \<and> oc \<noteq> None \<and> mission_type r = t \<and> outcome r = oc) df)"

text \<open>
  The filtered record set of the charts as the specification words it: the rows whose
  Launch Date is present with a year in [start year, end year], and, when the country is
  not \<open>All Countries\<close>, of these the rows whose Operator contains the country name.
  Years are compared as numbers here.
\<close>

definition year_in_range :: "int \<Rightarrow> int \<Rightarrow> mission \<Rightarrow> bool" where
  "year_in_range lo hi r =
     (case launch_date r of None \<Rightarrow> False | Some ts \<Rightarrow> lo \<le> year ts \<and> year ts \<le> hi)"


subsection \<open>Sample inputs\<close>

text \<open>
  Small inputs on which the functions are run in the closed theorems below:
  \<open>sample_data\<close> with its failure rows \<open>sample_fail\<close>; \<open>sample_data\<close> with one more row
  whose Operator cell is empty; a table of failures in which one Outcome names the
  category \<open>Launch\<close> after its first word and two Operators are outside the allow-list; a
  table of failures in which one Operator cell is empty. \<open>no_regex\<close> stands for the
  compiler of \<open>re\<close> where every pattern at hand is free of regular-expression
  characters, so that it is never called.
\<close>

definition midnight :: "int \<Rightarrow> nat \<Rightarrow> nat \<Rightarrow> timestamp" where
  "midnight y m d = \<lparr>year = y, month = m, day = d, hour = 0, minute = 0, second = 0,
                      microsecond = 0, nanosecond = 0\<rparr>"

definition sample_row ::
  "timestamp option \<Rightarrow> string option \<Rightarrow> string option \<Rightarrow> string option \<Rightarrow> mission" where
  "sample_row d op t oc =
     \<lparr>launch_date = d, operator = op, mission_type = t, outcome = oc,
      additional_information = None\<rparr>"

definition no_regex :: "string \<Rightarrow> exn + (string \<Rightarrow> bool)" where
  "no_regex pat = Inl ReError"

definition sample_data :: "mission list" where
  "sample_data =
     [sample_row (Some (midnight 1966 1 31)) (Some ''Soviet Union'') (Some ''Lander'') (Some ''Successful''),
      sample_row (Some (midnight 1969 7 16)) (Some ''United States'') (Some ''Lander'') (Some ''Successful''),
      sample_row (Some (midnight 1971 7 26)) (Some ''United States'') (Some ''Orbiter'') (Some ''Launch failure''),
      sample_row None (Some ''United States'') None (Some ''Spacecraft failure''),
      sample_row (Some (midnight 1972 2 14)) (Some ''Soviet Union'') (Some ''Lander'') (Some ''Launch failure'')]"

definition sample_fail :: "mission list" where
  "sample_fail =
     [sample_row (Some (midnight 1971 7 26)) (Some ''United States'') (Some ''Orbiter'') (Some ''Launch failure''),
      sample_row None (Some ''United States'') None (Some ''Spacecraft failure''),
      sample_row (Some (midnight 1972 2 14)) (Some ''Soviet Union'') (Some ''Lander'') (Some ''Launch failure'')]"

definition sample_missing_operator :: "mission list" where
  "sample_missing_operator =
     sample_data @
     [sample_row (Some (midnight 1970 9 12)) None (Some ''Lander'') (Some ''Successful'')]"



section \<open>Properties\<close>

subsection \<open>Year-range validator\<close>

text \<open>
  C8. The year-range validator is total. When either bound lies outside
  [minimum dataset year, maximum dataset year] it returns [minimum, maximum]; when both
  bounds lie inside it returns the pair unchanged; its result is always one of these two
  lists, so it never replaces one bound alone.
\<close>

theorem validate_year_range_total:
  "((s < mn \<or> mx < s \<or> e < mn \<or> mx < e) \<longrightarrow> validate_year_range mn mx s e = [mn, mx])
   \<and> ((mn \<le> s \<and> s \<le> mx \<and> mn \<le> e \<and> e \<le> mx) \<longrightarrow> validate_year_range mn mx s e = [s, e])
   \<and> (validate_year_range mn mx s e = [s, e] \<or> validate_year_range mn mx s e = [mn, mx])"
  by (auto simp: validate_year_range_def)

theorem validate_year_range_total_witness:
  "validate_year_range 1958 2023 1969 2030 = [1958, 2023]
   \<and> validate_year_range 1958 2023 1969 1972 = [1969, 1972]"
  using validate_year_range_total [of 1969 1958 2023 2030]
        validate_year_range_total [of 1969 1958 2023 1972]
  by simp

subsection \<open>Date normaliser\<close>

lemma is_leap_century_back:
  assumes y: "2023 < y" "y \<le> 2262" and l: "is_leap y"
  shows "is_leap (y - 100)"
proof -
  from l have "4 dvd y" by (simp add: is_leap_def mod_eq_0_iff_dvd)
  moreover have "(4::int) dvd 100" by simp
  ultimately have "4 dvd (y - 100)" by (rule dvd_diff)
  then have m4: "(y - 100) mod 4 = 0" by (simp add: mod_eq_0_iff_dvd)
  have "y mod 400 \<noteq> 0"
  proof
    assume "y mod 400 = 0"
    then obtain k where k: "y = 400 * k" by (auto simp: mod_eq_0_iff_dvd elim: dvdE)
    with y have "5 < k" "k < 6" by simp_all
    then show False by simp
  qed
  with l have "y mod 100 \<noteq> 0" by (simp add: is_leap_def)
  then have "(y - 100) mod 100 \<noteq> 0" by simp
  with m4 show ?thesis by (simp add: is_leap_def)
qed

lemma days_in_month_century_back:
  assumes "2023 < y" "y \<le> 2262"
  shows "days_in_month y m \<le> days_in_month (y - 100) m"
  using is_leap_century_back [OF assms] by (auto simp: days_in_month_def)

lemma replace_year_century_back:
  assumes "valid_timestamp ts" "2023 < year ts"
  shows "replace_year ts (year ts - 100) = Inr (ts\<lparr>year := year ts - 100\<rparr>)"
proof -
  from assms have "year ts \<le> 2262" and d: "day ts \<le> days_in_month (year ts) (month ts)"
    by (simp_all add: valid_timestamp_def)
  with assms(2) have "day ts \<le> days_in_month (year ts - 100) (month ts)"
    using days_in_month_century_back [of "year ts" "month ts"] by linarith
  then show ?thesis by (simp add: replace_year_def)
qed


lemma validate_date_input_Timestamp:
  assumes "to_datetime date = Inr (Some ts)" "valid_timestamp ts"
  shows "validate_date_input to_datetime date =
           Inr (Timestamp (if 2023 < year ts then ts\<lparr>year := year ts - 100\<rparr> else ts))"
  using assms replace_year_century_back [of ts]
  by (simp add: validate_date_input_def)

lemma validate_date_input_NaT:
  "to_datetime date = Inr None \<Longrightarrow> validate_date_input to_datetime date = Inr NaT"
  by (simp add: validate_date_input_def)

lemma validate_date_input_ValueError:
  "to_datetime date = Inl ValueError \<Longrightarrow> validate_date_input to_datetime date = Inr NaN"
  by (simp add: validate_date_input_def)

lemma contract_Inl:
  "to_datetime_contract to_datetime \<Longrightarrow> to_datetime s = Inl e \<Longrightarrow> e = ValueError"
  unfolding to_datetime_contract_def
  by (erule allE [of _ s]) simp

lemma contract_Some:
  "to_datetime_contract to_datetime \<Longrightarrow> to_datetime s = Inr (Some ts) \<Longrightarrow> valid_timestamp ts"
  unfolding to_datetime_contract_def
  by (erule allE [of _ s]) simp

text \<open>
  C2. The date normaliser is total. For every input string: when parsing gives a Timestamp
  whose year exceeds 2023, the result is that Timestamp with the year lowered by 100 and
  every other field as parsed; when the year is at most 2023, the result is the parsed
  Timestamp; when parsing fails (or gives NaT), the result is a missing marker and nothing
  is raised. The hypothesis is what pandas documents of \<open>pd.to_datetime\<close>.
\<close>

theorem validate_date_input_total:
  assumes "to_datetime_contract to_datetime"
  shows "(\<forall>ts. to_datetime date = Inr (Some ts) \<and> 2023 < year ts \<longrightarrow>
            validate_date_input to_datetime date = Inr (Timestamp (ts\<lparr>year := year ts - 100\<rparr>)))
       \<and> (\<forall>ts. to_datetime date = Inr (Some ts) \<and> year ts \<le> 2023 \<longrightarrow>
            validate_date_input to_datetime date = Inr (Timestamp ts))
       \<and> (to_datetime date = Inr None \<longrightarrow> validate_date_input to_datetime date = Inr NaT)
       \<and> (\<forall>e. to_datetime date = Inl e \<longrightarrow> validate_date_input to_datetime date = Inr NaN)
       \<and> (\<exists>v. validate_date_input to_datetime date = Inr v)"
proof (cases "to_datetime date")
  case (Inl e)
  with assms have "e = ValueError" by (rule contract_Inl)
  with Inl have "validate_date_input to_datetime date = Inr NaN"
    by (simp add: validate_date_input_ValueError)
  with Inl show ?thesis by simp
next
  case (Inr r)
  show ?thesis
  proof (cases r)
    case None
    with Inr have "validate_date_input to_datetime date = Inr NaT"
      by (simp add: validate_date_input_NaT)
    with Inr None show ?thesis by simp
  next
    case (Some ts)
    with Inr have p: "to_datetime date = Inr (Some ts)" by simp
    with assms have "valid_timestamp ts" by (rule contract_Some)
    with p have "validate_date_input to_datetime date =
           Inr (Timestamp (if 2023 < year ts then ts\<lparr>year := year ts - 100\<rparr> else ts))"
      by (rule validate_date_input_Timestamp)
    with p show ?thesis by simp
  qed
qed

theorem validate_date_input_total_witness:
  "validate_date_input
     (\<lambda>s. if s = ''July 16, 2069''
          then Inr (Some \<lparr>year = 2069, month = 7, day = 16, hour = 13, minute = 32,
                           second = 0, microsecond = 0, nanosecond = 0\<rparr>)
          else if s = ''1969-07-16''
          then Inr (Some \<lparr>year = 1969, month = 7, day = 16, hour = 0, minute = 0,
                           second = 0, microsecond = 0, nanosecond = 0\<rparr>)
          else if s = '''' then Inr None else Inl ValueError)
     ''July 16, 2069''
   = Inr (Timestamp \<lparr>year = 1969, month = 7, day = 16, hour = 13, minute = 32,
                       second = 0, microsecond = 0, nanosecond = 0\<rparr>)"
proof -
  let ?p = "\<lambda>s. if s = ''July 16, 2069''
          then Inr (Some \<lparr>year = 2069, month = 7, day = 16, hour = 13, minute = 32,
                           second = 0, microsecond = 0, nanosecond = 0\<rparr>)
          else if s = ''1969-07-16''
          then Inr (Some \<lparr>year = 1969, month = 7, day = 16, hour = 0, minute = 0,
                           second = 0, microsecond = 0, nanosecond = 0\<rparr>)
          else if s = '''' then Inr None else Inl ValueError"
  have c: "to_datetime_contract ?p"
    by (simp add: to_datetime_contract_def valid_timestamp_def days_in_month_def)
  from validate_date_input_total [OF c, of "''July 16, 2069''"] show ?thesis by simp
qed

text \<open>
  C5, as stated, fails: the correction is applied once, so a string parsed to the year 2150
  is normalised to 2050, which is later than 2023.
\<close>

theorem century_correction_above_cutoff:
  "validate_date_input
     (\<lambda>s. if s = ''2150-01-01''
          then Inr (Some \<lparr>year = 2150, month = 1, day = 1, hour = 0, minute = 0,
                           second = 0, microsecond = 0, nanosecond = 0\<rparr>)
          else Inl ValueError)
     ''2150-01-01''
   = Inr (Timestamp \<lparr>year = 2050, month = 1, day = 1, hour = 0, minute = 0,
                       second = 0, microsecond = 0, nanosecond = 0\<rparr>)
   \<and> \<not> (2050 \<le> (2023::int))"
  by (simp add: validate_date_input_def replace_year_def days_in_month_def)

text \<open>
  C5, amended. For every successfully parsed launch-date string whose parsed year is at
  most 2123, the normalised year is at most 2023. In general the normalised year is the
  parsed year, lowered by 100 exactly when it exceeds 2023: it is at most the larger of
  2023 and the parsed year minus 100.
\<close>

theorem century_correction_bound:
  assumes "to_datetime_contract to_datetime" "to_datetime date = Inr (Some ts)"
  shows "\<exists>d. validate_date_input to_datetime date = Inr (Timestamp d)
           \<and> year d = (if 2023 < year ts then year ts - 100 else year ts)
           \<and> year d \<le> max 2023 (year ts - 100)
           \<and> (year ts \<le> 2123 \<longrightarrow> year d \<le> 2023)"
proof -
  from assms have "valid_timestamp ts" by (rule contract_Some)
  with assms(2) have "validate_date_input to_datetime date =
           Inr (Timestamp (if 2023 < year ts then ts\<lparr>year := year ts - 100\<rparr> else ts))"
    by (rule validate_date_input_Timestamp)
  then show ?thesis by auto
qed


theorem century_correction_bound_witness:
  "\<exists>d. validate_date_input
          (\<lambda>s. if s = ''12/2/69''
               then Inr (Some \<lparr>year = 2069, month = 12, day = 2, hour = 0, minute = 0,
                                second = 0, microsecond = 0, nanosecond = 0\<rparr>)
               else Inl ValueError)
          ''12/2/69'' = Inr (Timestamp d)
        \<and> year d = 1969 \<and> year d \<le> 2023"
proof -
  let ?p = "\<lambda>s. if s = ''12/2/69''
               then Inr (Some \<lparr>year = 2069, month = 12, day = 2, hour = 0, minute = 0,
                                second = 0, microsecond = 0, nanosecond = 0\<rparr>)
               else Inl ValueError"
  have c: "to_datetime_contract ?p"
    by (simp add: to_datetime_contract_def valid_timestamp_def days_in_month_def)
  have p: "?p ''12/2/69'' = Inr (Some \<lparr>year = 2069, month = 12, day = 2, hour = 0, minute = 0,
                                second = 0, microsecond = 0, nanosecond = 0\<rparr>)"
    by simp
  from century_correction_bound [OF c p] show ?thesis by simp
qed

subsection \<open>Distinct cells\<close>

lemma unique_set [simp]: "set (unique xs) = set xs"
  by (induction xs rule: unique.induct) auto

lemma unique_distinct [simp]: "distinct (unique xs)"
  by (induction xs rule: unique.induct) auto

subsection \<open>Mission type by outcome matrix\<close>

lemma zip_zeros: "zip idx (map (\<lambda>_. z) idx) = map (\<lambda>t. (t, z)) idx"
  by (induction idx) simp_all

lemma heat_column_None:
  "fillna0 (if in_series_keys df None then add_aligned idx (map (\<lambda>_. 0) idx) (series_at df None)
            else map Some (map (\<lambda>_. 0) idx))
   = map (\<lambda>t. int (pair_count df t None)) idx"
  by (simp add: in_series_keys_def fillna0_def pair_count_def comp_def)

lemma no_key_no_rows:
  assumes "\<not> in_series_keys df (Some oc)"
  shows "pair_count df t (Some oc) = 0"
proof -
  from assms have "\<forall>r \<in> set df. \<not> (t \<noteq> None \<and> mission_type r = t \<and> outcome r = Some oc)"
    by (auto simp: in_series_keys_def)
  then have "filter (\<lambda>r. t \<noteq> None \<and> Some oc \<noteq> None \<and> mission_type r = t \<and> outcome r = Some oc) df = []"
    by (auto simp: filter_empty_conv)
  then show ?thesis by (simp add: pair_count_def)
qed

lemma aligned_cell:
  "(case (case label of
            None \<Rightarrow> None
          | Some t \<Rightarrow> (case series_at df (Some oc) t of None \<Rightarrow> None | Some n \<Rightarrow> Some (0 + int n)))
    of None \<Rightarrow> 0 | Some n \<Rightarrow> n)
   = int (pair_count df label (Some oc))"
proof (cases label)
  case None
  then show ?thesis by (simp add: pair_count_def)
next
  case (Some t)
  have "filter (\<lambda>r. outcome r = Some oc \<and> mission_type r = Some t) df
      = filter (\<lambda>r. Some t \<noteq> None \<and> Some oc \<noteq> None \<and> mission_type r = Some t \<and> outcome r = Some oc) df"
    by (rule filter_cong) auto
  with Some show ?thesis by (simp add: series_at_def pair_count_def Let_def)
qed

lemma heat_column_Some:
  "fillna0 (if in_series_keys df (Some oc)
            then add_aligned idx (map (\<lambda>_. 0) idx) (series_at df (Some oc))
            else map Some (map (\<lambda>_. 0) idx))
   = map (\<lambda>t. int (pair_count df t (Some oc))) idx"
proof (cases "in_series_keys df (Some oc)")
  case True
  then show ?thesis
    by (simp add: fillna0_def add_aligned_def zip_zeros comp_def aligned_cell)
next
  case False
  then show ?thesis by (simp add: fillna0_def comp_def no_key_no_rows)
qed

lemma heat_column:
  "fillna0 (if in_series_keys df column
            then add_aligned idx (map (\<lambda>_. 0) idx) (series_at df column)
            else map Some (map (\<lambda>_. 0) idx))
   = map (\<lambda>t. int (pair_count df t column)) idx"
  by (cases column) (simp_all only: heat_column_None heat_column_Some)

lemma create_matrix_for_heatmap_cells:
  "create_matrix_for_heatmap data df =
     \<lparr>matrix_index = unique (map mission_type data),
      matrix_columns = unique (map outcome data),
      matrix_values = map (\<lambda>column. map (\<lambda>t. int (pair_count df t column))
                                       (unique (map mission_type data)))
                          (unique (map outcome data))\<rparr>"
  unfolding create_matrix_for_heatmap_def Let_def heat_column ..

lemma disjoint_filters:
  "\<forall>r \<in> set df. \<not> (A r \<and> B r) \<Longrightarrow>
     length (filter A df) + length (filter B df) = length (filter (\<lambda>r. A r \<or> B r) df)"
  by (induction df) auto

lemma count_partition:
  "distinct xs \<Longrightarrow>
     sum_list (map (\<lambda>x. length (filter (\<lambda>r. f r = x \<and> P r) df)) xs)
       = length (filter (\<lambda>r. f r \<in> set xs \<and> P r) df)"
proof (induction xs)
  case Nil
  then show ?case by simp
next
  case (Cons x xs)
  then have "\<forall>r \<in> set df. \<not> ((f r = x \<and> P r) \<and> (f r \<in> set xs \<and> P r))" by auto
  then have "length (filter (\<lambda>r. f r = x \<and> P r) df) + length (filter (\<lambda>r. f r \<in> set xs \<and> P r) df)
      = length (filter (\<lambda>r. (f r = x \<and> P r) \<or> (f r \<in> set xs \<and> P r)) df)"
    by (rule disjoint_filters)
  also have "filter (\<lambda>r. (f r = x \<and> P r) \<or> (f r \<in> set xs \<and> P r)) df
      = filter (\<lambda>r. f r \<in> set (x # xs) \<and> P r) df"
    by (rule filter_cong) auto
  finally show ?case using Cons by simp
qed

lemma column_total:
  assumes "distinct idx"
  shows "sum_list (map (\<lambda>t. pair_count df t oc) idx)
       = length (filter (\<lambda>r. outcome r = oc
                           \<and> (mission_type r \<in> set idx \<and> mission_type r \<noteq> None \<and> outcome r \<noteq> None)) df)"
proof -
  have "\<And>t. pair_count df t oc
      = length (filter (\<lambda>r. mission_type r = t \<and> (mission_type r \<noteq> None \<and> oc \<noteq> None \<and> outcome r = oc)) df)"
    unfolding pair_count_def by (rule arg_cong [where f = length], rule filter_cong) auto
  then have "sum_list (map (\<lambda>t. pair_count df t oc) idx)
      = length (filter (\<lambda>r. mission_type r \<in> set idx
                           \<and> (mission_type r \<noteq> None \<and> oc \<noteq> None \<and> outcome r = oc)) df)"
    using count_partition [OF assms, of mission_type
        "\<lambda>r. mission_type r \<noteq> None \<and> oc \<noteq> None \<and> outcome r = oc" df]
    by simp
  also have "filter (\<lambda>r. mission_type r \<in> set idx
                           \<and> (mission_type r \<noteq> None \<and> oc \<noteq> None \<and> outcome r = oc)) df
      = filter (\<lambda>r. outcome r = oc
                           \<and> (mission_type r \<in> set idx \<and> mission_type r \<noteq> None \<and> outcome r \<noteq> None)) df"
    by (rule filter_cong) auto
  finally show ?thesis .
qed

lemma matrix_total:
  assumes "distinct idx" "distinct cols"
    and "\<forall>r \<in> set df. mission_type r \<in> set idx \<and> outcome r \<in> set cols"
  shows "sum_list (map (\<lambda>oc. sum_list (map (\<lambda>t. pair_count df t oc) idx)) cols)
       = length (filter (\<lambda>r. mission_type r \<noteq> None \<and> outcome r \<noteq> None) df)"
proof -
  have "sum_list (map (\<lambda>oc. sum_list (map (\<lambda>t. pair_count df t oc) idx)) cols)
      = sum_list (map (\<lambda>oc. length (filter (\<lambda>r. outcome r = oc
                           \<and> (mission_type r \<in> set idx \<and> mission_type r \<noteq> None \<and> outcome r \<noteq> None)) df)) cols)"
    by (simp add: column_total [OF assms(1)])
  also have "\<dots> = length (filter (\<lambda>r. outcome r \<in> set cols
                           \<and> (mission_type r \<in> set idx \<and> mission_type r \<noteq> None \<and> outcome r \<noteq> None)) df)"
    by (rule count_partition [OF assms(2)])
  also have "filter (\<lambda>r. outcome r \<in> set cols
                           \<and> (mission_type r \<in> set idx \<and> mission_type r \<noteq> None \<and> outcome r \<noteq> None)) df
      = filter (\<lambda>r. mission_type r \<noteq> None \<and> outcome r \<noteq> None) df"
    using assms(3) by (intro filter_cong) auto
  finally show ?thesis .
qed

lemma int_sum_list: "sum_list (map (\<lambda>x. int (f x)) xs) = int (sum_list (map f xs))"
  by (induction xs) simp_all

text \<open>
  C3. For every table \<open>df\<close> of rows, the matrix built from it has as row labels the
  distinct Mission Type cells of the whole table \<open>data\<close> and as column labels the
  distinct Outcome cells of \<open>data\<close>, whatever \<open>df\<close> is (so two filters give the same
  labels); every cell is the number of rows of \<open>df\<close> with that Mission Type and that
  Outcome, 0 where there is none; and when the rows of \<open>df\<close> are rows of \<open>data\<close>, the
  sum of all cells is the number of rows of \<open>df\<close> whose Mission Type and Outcome are both
  present.
\<close>

theorem create_matrix_for_heatmap_shape_and_counts:
  "distinct (matrix_index (create_matrix_for_heatmap data df))
   \<and> set (matrix_index (create_matrix_for_heatmap data df)) = mission_type ` set data
   \<and> distinct (matrix_columns (create_matrix_for_heatmap data df))
   \<and> set (matrix_columns (create_matrix_for_heatmap data df)) = outcome ` set data
   \<and> matrix_index (create_matrix_for_heatmap data df) = matrix_index (create_matrix_for_heatmap data df')
   \<and> matrix_columns (create_matrix_for_heatmap data df) = matrix_columns (create_matrix_for_heatmap data df')
   \<and> length (matrix_values (create_matrix_for_heatmap data df))
       = length (matrix_columns (create_matrix_for_heatmap data df))
   \<and> (\<forall>j < length (matrix_columns (create_matrix_for_heatmap data df)).
        length (matrix_values (create_matrix_for_heatmap data df) ! j)
          = length (matrix_index (create_matrix_for_heatmap data df))
        \<and> (\<forall>i < length (matrix_index (create_matrix_for_heatmap data df)).
             matrix_values (create_matrix_for_heatmap data df) ! j ! i
               = int (pair_count df (matrix_index (create_matrix_for_heatmap data df) ! i)
                                    (matrix_columns (create_matrix_for_heatmap data df) ! j))))
   \<and> (set df \<subseteq> set data \<longrightarrow>
        sum_list (map sum_list (matrix_values (create_matrix_for_heatmap data df)))
          = int (length (filter (\<lambda>r. mission_type r \<noteq> None \<and> outcome r \<noteq> None) df)))"
proof -
  let ?idx = "unique (map mission_type data)"
  let ?cols = "unique (map outcome data)"
  have total: "sum_list (map sum_list (map (\<lambda>column. map (\<lambda>t. int (pair_count df t column)) ?idx) ?cols))
      = int (length (filter (\<lambda>r. mission_type r \<noteq> None \<and> outcome r \<noteq> None) df))"
    if sub: "set df \<subseteq> set data"
  proof -
    from sub have mem: "\<forall>r \<in> set df. mission_type r \<in> set ?idx \<and> outcome r \<in> set ?cols"
      by auto
    have "sum_list (map sum_list (map (\<lambda>column. map (\<lambda>t. int (pair_count df t column)) ?idx) ?cols))
        = int (sum_list (map (\<lambda>oc. sum_list (map (\<lambda>t. pair_count df t oc) ?idx)) ?cols))"
      by (simp add: comp_def int_sum_list)
    also have "\<dots> = int (length (filter (\<lambda>r. mission_type r \<noteq> None \<and> outcome r \<noteq> None) df))"
      using matrix_total [OF unique_distinct unique_distinct mem] by simp
    finally show ?thesis .
  qed
  show ?thesis
    unfolding create_matrix_for_heatmap_cells using total by simp
qed

theorem create_matrix_for_heatmap_shape_and_counts_witness:
  "matrix_index (create_matrix_for_heatmap sample_data sample_fail)
     = [Some ''Lander'', Some ''Orbiter'', None]
   \<and> matrix_columns (create_matrix_for_heatmap sample_data sample_fail)
     = [Some ''Successful'', Some ''Launch failure'', Some ''Spacecraft failure'']
   \<and> matrix_values (create_matrix_for_heatmap sample_data sample_fail)
     = [[0, 0, 0], [1, 1, 0], [0, 0, 0]]
   \<and> sum_list (map sum_list (matrix_values (create_matrix_for_heatmap sample_data sample_fail))) = 2"
proof -
  have sub: "set sample_fail \<subseteq> set sample_data"
    by (simp add: sample_fail_def sample_data_def)
  have n: "length (filter (\<lambda>r. mission_type r \<noteq> None \<and> outcome r \<noteq> None) sample_fail) = 2"
    by (simp add: sample_fail_def sample_row_def)
  have idx: "unique (map mission_type sample_data) = [Some ''Lander'', Some ''Orbiter'', None]"
    by (simp add: sample_data_def sample_row_def)
  have cols: "unique (map outcome sample_data)
      = [Some ''Successful'', Some ''Launch failure'', Some ''Spacecraft failure'']"
    by (simp add: sample_data_def sample_row_def)
  have cells: "matrix_values (create_matrix_for_heatmap sample_data sample_fail)
     = [[0, 0, 0], [1, 1, 0], [0, 0, 0]]"
    unfolding create_matrix_for_heatmap_cells idx cols
    by (simp add: pair_count_def sample_fail_def sample_row_def)
  from create_matrix_for_heatmap_shape_and_counts [of sample_data sample_fail sample_fail] sub n
  have "sum_list (map sum_list (matrix_values (create_matrix_for_heatmap sample_data sample_fail))) = 2"
    by simp
  with idx cols cells show ?thesis
    by (simp add: create_matrix_for_heatmap_cells)
qed

subsection \<open>Year strings\<close>

text \<open>
  The handler compares year strings. Two decimal strings of the same length are ordered as
  their numbers are, and the years at hand all have four digits.
\<close>

lemma digit_char_less:
  "k < 10 \<Longrightarrow> l < 10 \<Longrightarrow> (char_of (48 + k) :: char) < char_of (48 + l) \<longleftrightarrow> (k::nat) < l"
  by (simp add: less_char_def)

lemma digit_char_eq:
  assumes "k < 10" "l < 10"
  shows "(char_of (48 + k) :: char) = char_of (48 + l) \<longleftrightarrow> (k::nat) = l"
proof
  assume "(char_of (48 + k) :: char) = char_of (48 + l)"
  then have "(of_char (char_of (48 + k) :: char) :: nat) = of_char (char_of (48 + l) :: char)"
    by simp
  with assms show "k = l" by simp
qed simp

lemma snoc_less:
  "length xs = length ys \<Longrightarrow>
     (xs @ [x] < ys @ [y] \<longleftrightarrow> xs < ys \<or> xs = ys \<and> x < y)"
  for xs ys :: "char list"
  by (induction xs ys rule: list_induct2) auto

lemma nat_less_div_mod:
  "(a::nat) < b \<longleftrightarrow> a div 10 < b div 10 \<or> (a div 10 = b div 10 \<and> a mod 10 < b mod 10)"
proof -
  obtain qa ra where a: "a = 10 * qa + ra" "ra < 10"
    by (metis mod_less_divisor mult_div_mod_eq zero_less_numeral)
  obtain qb rb where b: "b = 10 * qb + rb" "rb < 10"
    by (metis mod_less_divisor mult_div_mod_eq zero_less_numeral)
  from a b show ?thesis by auto
qed

lemma nat_eq_div_mod:
  "(a::nat) = b \<longleftrightarrow> a div 10 = b div 10 \<and> a mod 10 = b mod 10"
  by (metis mult_div_mod_eq)

lemma digits_length_pos: "0 < length (digits n)"
  by (induction n rule: digits.induct) (subst digits.simps, simp)

lemma digits_length_one: "length (digits n) = Suc 0 \<longleftrightarrow> n < 10"
proof
  assume l: "length (digits n) = Suc 0"
  show "n < 10"
  proof (rule ccontr)
    assume "\<not> n < 10"
    then have "length (digits n) = length (digits (n div 10)) + 1"
      by (subst digits.simps) simp
    with l digits_length_pos [of "n div 10"] show False by simp
  qed
next
  assume "n < 10"
  then show "length (digits n) = Suc 0" by (subst digits.simps) simp
qed

lemma digits_order:
  "length (digits a) = length (digits b) \<Longrightarrow>
     (digits a < digits b \<longleftrightarrow> a < b) \<and> (digits a = digits b \<longleftrightarrow> a = b)"
proof (induction a arbitrary: b rule: digits.induct)
  case (1 a)
  show ?case
  proof (cases "a < 10")
    case True
    then have a: "digits a = [char_of (48 + a)]" by (subst digits.simps) simp
    with "1.prems" have "length (digits b) = 1" by simp
    then have "b < 10" by (simp add: digits_length_one)
    then have b: "digits b = [char_of (48 + b)]" by (subst digits.simps) simp
    from True \<open>b < 10\<close> show ?thesis
      unfolding a b by (simp add: digit_char_less digit_char_eq)
  next
    case False
    then have a: "digits a = digits (a div 10) @ [char_of (48 + a mod 10)]"
      by (subst digits.simps) simp
    from False have "length (digits a) \<noteq> 1" by (simp add: digits_length_one)
    with "1.prems" have "\<not> b < 10" by (simp add: digits_length_one)
    then have b: "digits b = digits (b div 10) @ [char_of (48 + b mod 10)]"
      by (subst digits.simps) simp
    from "1.prems" have len: "length (digits (a div 10)) = length (digits (b div 10))"
      unfolding a b by simp
    from "1.IH" [OF False len]
    have ih: "digits (a div 10) < digits (b div 10) \<longleftrightarrow> a div 10 < b div 10"
      "digits (a div 10) = digits (b div 10) \<longleftrightarrow> a div 10 = b div 10"
      by simp_all
    have m: "a mod 10 < 10" "b mod 10 < 10" by simp_all
    have "digits a < digits b \<longleftrightarrow> a < b"
      unfolding a b snoc_less [OF len] ih digit_char_less [OF m]
      by (rule nat_less_div_mod [symmetric])
    moreover have "digits a = digits b \<longleftrightarrow> a = b"
      unfolding a b using ih(2) digit_char_eq [OF m] nat_eq_div_mod [of a b] by simp
    ultimately show ?thesis ..
  qed
qed

lemma digits_four:
  assumes "1000 \<le> n" "n \<le> 9999"
  shows "length (digits n) = 4"
proof -
  from assms have b: "\<not> n < 10" "\<not> n div 10 < 10" "\<not> n div 10 div 10 < 10"
    "n div 10 div 10 div 10 < 10"
    by simp_all
  have "length (digits (n div 10 div 10 div 10)) = 1"
    using b(4) by (simp add: digits_length_one)
  then have "length (digits (n div 10 div 10)) = 2"
    using b(3) by (subst digits.simps) simp
  then have "length (digits (n div 10)) = 3"
    using b(2) by (subst digits.simps) simp
  then show ?thesis
    using b(1) by (subst digits.simps) simp
qed

lemma str_int_year_le:
  assumes "1000 \<le> a" "a \<le> 9999" "1000 \<le> b" "b \<le> 9999"
  shows "str_int a \<le> str_int b \<longleftrightarrow> a \<le> b"
proof -
  from assms have "length (digits (nat a)) = length (digits (nat b))"
    by (simp add: digits_four)
  then have "(digits (nat a) < digits (nat b) \<longleftrightarrow> nat a < nat b)
      \<and> (digits (nat a) = digits (nat b) \<longleftrightarrow> nat a = nat b)"
    by (rule digits_order)
  then have "digits (nat a) \<le> digits (nat b) \<longleftrightarrow> nat a \<le> nat b"
    by (auto simp: le_less)
  moreover from assms have "nat a \<le> nat b \<longleftrightarrow> a \<le> b" by linarith
  ultimately show ?thesis using assms by (simp add: str_int_def)
qed

lemma year_mask_numeric:
  assumes "\<forall>ts. launch_date r = Some ts \<longrightarrow> valid_timestamp ts"
    and "1000 \<le> lo" "lo \<le> 9999" "1000 \<le> hi" "hi \<le> 9999"
  shows "year_mask [lo, hi] r = year_in_range lo hi r"
proof (cases "launch_date r")
  case None
  then show ?thesis by (simp add: year_mask_def year_in_range_def)
next
  case (Some ts)
  with assms(1) have "1000 \<le> year ts" "year ts \<le> 9999"
    by (simp_all add: valid_timestamp_def)
  with assms(2-5) have "str_int lo \<le> str_int (year ts) \<longleftrightarrow> lo \<le> year ts"
    "str_int (year ts) \<le> str_int hi \<longleftrightarrow> year ts \<le> hi"
    by (simp_all add: str_int_year_le)
  with Some show ?thesis
    by (simp add: year_mask_def year_in_range_def strftime_Y_def)
qed

lemma year_filter_numeric:
  assumes "\<forall>r \<in> set data. \<forall>ts. launch_date r = Some ts \<longrightarrow> valid_timestamp ts"
    and "1000 \<le> lo" "lo \<le> 9999" "1000 \<le> hi" "hi \<le> 9999"
  shows "year_filter Datetime64 data [lo, hi] = Inr (filter (year_in_range lo hi) data)"
proof -
  have "filter (year_mask [lo, hi]) data = filter (year_in_range lo hi) data"
    using assms by (intro filter_cong refl year_mask_numeric) auto
  then show ?thesis by (simp add: year_filter_def)
qed

lemma validated_years_four_digits:
  assumes "1000 \<le> mn" "mn \<le> 9999" "1000 \<le> mx" "mx \<le> 9999"
    and "validate_year_range mn mx s e = [lo, hi]"
  shows "1000 \<le> lo \<and> lo \<le> 9999 \<and> 1000 \<le> hi \<and> hi \<le> 9999"
  using assms by (auto simp: validate_year_range_def split: if_splits)

subsection \<open>Export\<close>

text \<open>
  C7, amended. For every requested format, the export handler lowers the format's case; for
  csv, json and excel it returns the named file whose content is the writer's output on
  the whole table \<open>data\<close> (the handler receives no filtered view); for any other format it
  returns nothing and raises nothing. Two exports of one format other than excel, of the
  unchanged table, are equal, whatever the click counts and the times of the exports. Two
  excel exports are equal exactly when the spreadsheet writer gives the same content at the
  two times.
\<close>

theorem get_download_formats:
  "(lower f = ''csv'' \<longrightarrow>
      get_download to_csv to_json to_excel data now n f
        = Some \<lparr>content = to_csv data, filename = ''Moonlanding.csv''\<rparr>)
   \<and> (lower f = ''json'' \<longrightarrow>
      get_download to_csv to_json to_excel data now n f
        = Some \<lparr>content = to_json data, filename = ''Moonlanding.json''\<rparr>)
   \<and> (lower f = ''excel'' \<longrightarrow>
      get_download to_csv to_json to_excel data now n f
        = Some \<lparr>content = to_excel now data, filename = ''Moonlanding.xlsx''\<rparr>)
   \<and> (lower f \<notin> {''csv'', ''json'', ''excel''} \<longrightarrow>
      get_download to_csv to_json to_excel data now n f = None)
   \<and> (lower f \<noteq> ''excel'' \<longrightarrow>
      get_download to_csv to_json to_excel data now n f
        = get_download to_csv to_json to_excel data now' n' f)
   \<and> (lower f = ''excel'' \<longrightarrow>
      (get_download to_csv to_json to_excel data now n f
         = get_download to_csv to_json to_excel data now' n' f
       \<longleftrightarrow> to_excel now data = to_excel now' data))"
  by (simp add: get_download_def allowed_file_formats_def send_data_frame_def)

theorem get_download_formats_witness:
  "get_download (\<lambda>df. (0, df)) (\<lambda>df. (0, df)) (\<lambda>now df. (now, df)) sample_data 7 1 ''CSV''
     = Some \<lparr>content = (0, sample_data), filename = ''Moonlanding.csv''\<rparr>
   \<and> get_download (\<lambda>df. (0, df)) (\<lambda>df. (0, df)) (\<lambda>now df. (now, df)) sample_data 7 1 ''CSV''
     = get_download (\<lambda>df. (0, df)) (\<lambda>df. (0, df)) (\<lambda>now df. (now, df)) sample_data 9 2 ''CSV''
   \<and> get_download (\<lambda>df. (0, df)) (\<lambda>df. (0, df)) (\<lambda>now df. (now, df)) sample_data 7 1 ''Excel''
     = Some \<lparr>content = (7, sample_data), filename = ''Moonlanding.xlsx''\<rparr>
   \<and> get_download (\<lambda>df. (0, df)) (\<lambda>df. (0, df)) (\<lambda>now df. (now, df)) sample_data 7 1 ''xml''
     = None"
proof -
  have l: "lower ''CSV'' = ''csv''" "lower ''Excel'' = ''excel''" "lower ''xml'' = ''xml''"
    by (simp_all add: lower_def lower_char_def)
  from get_download_formats [of "''CSV''" "\<lambda>df. (0::nat, df)" "\<lambda>df. (0::nat, df)"
          "\<lambda>now df. (now, df)" sample_data 7 1 9 2]
       get_download_formats [of "''Excel''" "\<lambda>df. (0::nat, df)" "\<lambda>df. (0::nat, df)"
          "\<lambda>now df. (now, df)" sample_data 7 1 7 1]
       get_download_formats [of "''xml''" "\<lambda>df. (0::nat, df)" "\<lambda>df. (0::nat, df)"
          "\<lambda>now df. (now, df)" sample_data 7 1 7 1]
  show ?thesis unfolding l by force
qed

text \<open>
  C7, as stated, fails for excel: with a spreadsheet writer that records the time of the
  export in the workbook, as the writer of pandas does, two exports of the unchanged table
  at two times differ.
\<close>

theorem get_download_excel_differs:
  "get_download (\<lambda>df. (0, df)) (\<lambda>df. (0, df)) (\<lambda>now df. (now, df)) sample_data 7 1 ''excel''
     \<noteq> get_download (\<lambda>df. (0, df)) (\<lambda>df. (0, df)) (\<lambda>now df. (now, df)) sample_data 9 2 ''excel''"
  by (simp add: get_download_def allowed_file_formats_def send_data_frame_def lower_def
      lower_char_def)

subsection \<open>Failure-category validator\<close>

text \<open>
  On a list of prefixes that is not empty the validator returns its input when it is a
  member, and the first prefix otherwise; it raises exactly on the empty list.
\<close>

lemma validate_fail_input_nonempty:
  "allowed_fails \<noteq> [] \<Longrightarrow>
     validate_fail_input allowed_fails v
       = Inr (if v \<in> set allowed_fails then v else hd allowed_fails)"
  by (cases allowed_fails) (simp_all add: validate_fail_input_def)

lemma validate_fail_input_raises_iff:
  "validate_fail_input allowed_fails v = Inl e \<longleftrightarrow> allowed_fails = [] \<and> e = IndexError"
  by (cases allowed_fails) (auto simp: validate_fail_input_def)

subsection \<open>Rows whose cell contains a pattern\<close>

text \<open>
  For a pattern without regular-expression characters the compiler is not consulted. Every
  name of the allow-list is such a pattern, and so is \<open>fail\<close>; the validated country is
  always a name of the allow-list.
\<close>

lemma compile_pattern_literal:
  "regex_free pat \<Longrightarrow> compile_pattern re_compile pat = Inr (str_contains pat)"
  by (simp add: compile_pattern_def)

lemma contains_rows_literal:
  "regex_free pat \<Longrightarrow>
     contains_rows re_compile data col pat df =
       (if \<not> text_column data col then Inl AttributeError
        else if \<exists>r \<in> set df. col r = None then Inl ValueError
        else Inr (filter (\<lambda>r. case col r of None \<Rightarrow> False | Some s \<Rightarrow> str_contains pat s) df))"
  by (simp add: contains_rows_def compile_pattern_literal)

lemma regex_free_fail: "regex_free ''fail''"
  by (simp add: regex_free_def)

lemma fail_rows_literal:
  "fail_rows re_compile data =
     (if \<not> text_column data outcome then Inl AttributeError
      else if \<exists>r \<in> set data. outcome r = None then Inl ValueError
      else Inr (filter (\<lambda>r. case outcome r of None \<Rightarrow> False | Some s \<Rightarrow> str_contains ''fail'' s) data))"
  unfolding fail_rows_def by (rule contains_rows_literal [OF regex_free_fail])

text \<open>
  C9 fails on a table without failure outcomes: no Outcome contains \<open>fail\<close>, the list of
  prefixes is empty, and the fallback \<open>allowed_fails[0]\<close> raises IndexError.
\<close>

theorem validate_fail_input_no_failures:
  "fail_rows re_compile
     [\<lparr>launch_date = None, operator = Some ''Japan'', mission_type = Some ''Lander'',
       outcome = Some ''Successful'', additional_information = None\<rparr>] = Inr []
   \<and> allowed_fails_of [] = []
   \<and> validate_fail_input (allowed_fails_of []) ''Launch'' = Inl IndexError"
  by (simp add: fail_rows_literal text_column_def str_contains_def allowed_fails_of_def
      validate_fail_input_def List.map_filter_simps sublist_code)

lemma allowed_countries_regex_free: "\<forall>c \<in> set allowed_countries. regex_free c"
  by (simp add: allowed_countries_def regex_free_def)


subsection \<open>Bar chart of failures per country\<close>

lemma contains_rows_operator:
  "regex_free c \<Longrightarrow>
     contains_rows re_compile data operator c df =
       (if \<not> text_column data operator then Inl AttributeError
        else if \<exists>r \<in> set df. operator r = None then Inl ValueError
        else Inr (filter (operator_contains c) df))"
  by (auto simp: contains_rows_literal operator_contains_def [abs_def])

lemma update_present:
  "distinct (map fst cd) \<Longrightarrow> k \<in> fst ` set cd \<Longrightarrow>
     AList.update k x cd = map (\<lambda>(k', v). if k' = k then (k', x) else (k', v)) cd"
proof (induction cd)
  case Nil
  then show ?case by simp
next
  case (Cons p cd)
  obtain a b where p: "p = (a, b)" by (cases p)
  show ?case
  proof (cases "a = k")
    case True
    with Cons.prems p have "k \<notin> fst ` set cd" by auto
    then have "map (\<lambda>(k', v). if k' = k then (k', x) else (k', v)) cd = cd"
      by (induction cd) auto
    with True p show ?thesis by simp
  next
    case False
    with Cons p show ?thesis by auto
  qed
qed

lemma count_loop_counts:
  assumes "text_column data operator" "\<forall>r \<in> set cf. operator r \<noteq> None"
  shows "\<forall>c \<in> set cs. regex_free c \<Longrightarrow> distinct (map fst cd) \<Longrightarrow> set cs \<subseteq> fst ` set cd \<Longrightarrow>
     count_loop re_compile data cf cs cd =
       Inr (map (\<lambda>(k, v). if k \<in> set cs then (k, country_count cf k) else (k, v)) cd)"
proof (induction cs arbitrary: cd)
  case Nil
  then show ?case by simp
next
  case (Cons c cs)
  let ?cd = "AList.update c (country_count cf c) cd"
  from Cons.prems have c: "c \<in> fst ` set cd" and rc: "regex_free c"
    and rcs: "\<forall>c \<in> set cs. regex_free c"
    by simp_all
  with Cons.prems have u: "?cd = map (\<lambda>(k', v). if k' = c then (k', country_count cf c) else (k', v)) cd"
    by (simp add: update_present)
  then have keys: "map fst ?cd = map fst cd" by (simp add: comp_def case_prod_unfold)
  with Cons.prems have "distinct (map fst ?cd)" "set cs \<subseteq> fst ` set ?cd"
    by (auto simp flip: set_map)
  with rcs have "count_loop re_compile data cf cs ?cd =
       Inr (map (\<lambda>(k, v). if k \<in> set cs then (k, country_count cf k) else (k, v)) ?cd)"
    by (rule Cons.IH)
  also have "map (\<lambda>(k, v). if k \<in> set cs then (k, country_count cf k) else (k, v)) ?cd
      = map (\<lambda>(k, v). if k \<in> set (c # cs) then (k, country_count cf k) else (k, v)) cd"
    unfolding u by auto
  finally show ?case using assms rc
    by (simp add: contains_rows_operator country_count_def)
qed

lemma count_loop_raises:
  assumes "regex_free c"
  shows "count_loop re_compile data cf (c # cs) cd =
     (if \<not> text_column data operator then Inl AttributeError
      else if \<exists>r \<in> set cf. operator r = None then Inl ValueError
      else count_loop re_compile data cf cs (AList.update c (country_count cf c) cd))"
  using assms by (auto simp: contains_rows_operator country_count_def)

lemma allowed_countries_distinct: "distinct allowed_countries"
  by (simp add: allowed_countries_def)

lemma count_loop_allowed_countries:
  "count_loop re_compile data cf allowed_countries (map (\<lambda>c. (c, 0)) allowed_countries) =
     (if \<not> text_column data operator then Inl AttributeError
      else if \<exists>r \<in> set cf. operator r = None then Inl ValueError
      else Inr (map (\<lambda>c. (c, country_count cf c)) allowed_countries))"
proof (cases "text_column data operator \<and> (\<forall>r \<in> set cf. operator r \<noteq> None)")
  case False
  obtain c cs where cs: "allowed_countries = c # cs"
    by (simp add: allowed_countries_def)
  have "regex_free c" using allowed_countries_regex_free unfolding cs by simp
  then have r: "count_loop re_compile data cf (c # cs) (map (\<lambda>c. (c, 0)) (c # cs)) =
     (if \<not> text_column data operator then Inl AttributeError
      else if \<exists>r \<in> set cf. operator r = None then Inl ValueError
      else count_loop re_compile data cf cs
             (AList.update c (country_count cf c) (map (\<lambda>c. (c, 0)) (c # cs))))"
    by (rule count_loop_raises)
  show ?thesis unfolding cs r using False by auto
next
  case True
  let ?cd = "map (\<lambda>c. (c, 0::nat)) allowed_countries"
  have keys: "map fst ?cd = allowed_countries" by (simp add: comp_def)
  from True have t: "text_column data operator" and ops: "\<forall>r \<in> set cf. operator r \<noteq> None"
    by simp_all
  have d: "distinct (map fst ?cd)" unfolding keys by (rule allowed_countries_distinct)
  have s: "set allowed_countries \<subseteq> fst ` set ?cd"
    using keys by (metis order_refl set_map)
  have "count_loop re_compile data cf allowed_countries ?cd =
       Inr (map (\<lambda>(k, v). if k \<in> set allowed_countries then (k, country_count cf k) else (k, v)) ?cd)"
    using t ops allowed_countries_regex_free d s by (rule count_loop_counts)
  also have "map (\<lambda>(k, v). if k \<in> set allowed_countries then (k, country_count cf k) else (k, v)) ?cd
        = map (\<lambda>c. (c, country_count cf c)) allowed_countries"
    by (simp add: comp_def)
  finally show ?thesis using True by auto
qed

lemma get_bar_chart_unfold:
  "get_bar_chart re_compile data fail allowed_fails entered_fail =
     (case validate_fail_input allowed_fails entered_fail of
        Inl e \<Rightarrow> Inl e
      | Inr validated \<Rightarrow>
          (case contains_rows re_compile data outcome validated fail of
             Inl e \<Rightarrow> Inl e
           | Inr choosen_fail \<Rightarrow>
               if \<not> text_column data operator then Inl AttributeError
               else if \<exists>r \<in> set choosen_fail. operator r = None then Inl ValueError
               else Inr \<lparr>bar_x = allowed_countries,
                         bar_y = map (country_count choosen_fail) allowed_countries,
                         bar_title = ''Number of fails''\<rparr>))"
proof -
  have keys: "map fst (map (\<lambda>c. (c, 0::nat)) allowed_countries) = allowed_countries"
    by (simp add: comp_def)
  show ?thesis
    unfolding get_bar_chart_def Let_def keys count_loop_allowed_countries
    by (auto simp: create_bar_def comp_def split: sum.splits)
qed

lemma matching_failures_found:
  "matching_failures data category = failures_found (str_contains category) data"
  by (simp add: matching_failures_def failures_found_def)

lemma choosen_fail_found:
  assumes "fail_rows re_compile data = Inr fail"
  shows "contains_rows re_compile data outcome category fail =
     (case compile_pattern re_compile category of
        Inl e \<Rightarrow> Inl e
      | Inr found \<Rightarrow> Inr (failures_found found data))"
proof -
  from assms have t: "text_column data outcome"
    and present: "\<forall>r \<in> set data. outcome r \<noteq> None"
    and fail: "fail = filter (\<lambda>r. case outcome r of None \<Rightarrow> False | Some s \<Rightarrow> str_contains ''fail'' s) data"
    by (auto simp: fail_rows_literal split: if_splits)
  from present fail have p: "\<not> (\<exists>r \<in> set fail. outcome r = None)" by simp
  have "filter (\<lambda>r. case outcome r of None \<Rightarrow> False | Some s \<Rightarrow> found s) fail
      = failures_found found data" for found
    unfolding fail failures_found_def filter_filter
    by (rule filter_cong) (auto split: option.splits)
  with t p show ?thesis
    by (auto simp: contains_rows_def split: sum.splits)
qed

lemma choosen_fail_eq:
  assumes "fail_rows re_compile data = Inr fail" "regex_free category"
  shows "contains_rows re_compile data outcome category fail
     = Inr (matching_failures data category)"
  using choosen_fail_found [OF assms(1), of category] assms(2)
  by (simp add: compile_pattern_literal matching_failures_found)





lemmas eval_simps =
  sample_data_def sample_fail_def sample_row_def midnight_def
  text_column_def str_contains_def sublist_code fail_rows_literal allowed_fails_of_def
  first_word_def List.map_filter_simps validate_fail_input_def regex_free_def
  matching_failures_def prefix_failures_def matching_countries_def country_count_def
  operator_contains_def allowed_countries_def

lemma sample_fail_rows: "fail_rows no_regex sample_data = Inr sample_fail"
  by (simp add: eval_simps)

lemma sample_allowed_fails: "allowed_fails_of sample_fail = [''Launch'', ''Spacecraft'']"
  by (simp add: eval_simps)

lemma sample_matching: "matching_failures sample_data ''Launch'' =
     [sample_row (Some (midnight 1971 7 26)) (Some ''United States'') (Some ''Orbiter'') (Some ''Launch failure''),
      sample_row (Some (midnight 1972 2 14)) (Some ''Soviet Union'') (Some ''Lander'') (Some ''Launch failure'')]"
  by (simp add: eval_simps)


lemma sample_text_operator: "text_column sample_data operator"
  by (simp add: text_column_def sample_data_def sample_row_def)





text \<open>
  C10. Whenever the handler returns a chart, the chart has a bar labelled
  \<open>All Countries\<close>, and its count is the number of matching failure rows whose Operator
  contains the text \<open>All Countries\<close>; the handler returns a chart whenever the Operator
  column holds text and the Operators of the matching failure rows are present.
\<close>

theorem get_bar_chart_all_countries_bar:
  assumes "fail_rows re_compile data = Inr fail"
    and "validate_fail_input allowed_fails entered_fail = Inr validated"
    and "regex_free validated"
  shows "(\<forall>chart. get_bar_chart re_compile data fail allowed_fails entered_fail = Inr chart \<longrightarrow>
            ''All Countries'' \<in> set (bar_x chart)
            \<and> map_of (zip (bar_x chart) (bar_y chart)) ''All Countries''
                = Some (country_count (matching_failures data validated) ''All Countries''))
       \<and> (text_column data operator
            \<and> (\<forall>r \<in> set (matching_failures data validated). operator r \<noteq> None) \<longrightarrow>
            (\<exists>chart. get_bar_chart re_compile data fail allowed_fails entered_fail = Inr chart))"
proof -
  let ?cf = "matching_failures data validated"
  from assms(1,3) have cf: "contains_rows re_compile data outcome validated fail = Inr ?cf"
    by (rule choosen_fail_eq)
  have bar: "''All Countries'' \<in> set allowed_countries
      \<and> map_of (zip allowed_countries (map (country_count ?cf) allowed_countries)) ''All Countries''
          = Some (country_count ?cf ''All Countries'')"
    by (simp add: allowed_countries_def)
  from assms(2) cf bar show ?thesis
    unfolding get_bar_chart_unfold by (auto split: if_splits)
qed

theorem get_bar_chart_all_countries_bar_witness:
  "\<exists>chart. get_bar_chart no_regex sample_data sample_fail (allowed_fails_of sample_fail) ''Landing''
        = Inr chart
      \<and> map_of (zip (bar_x chart) (bar_y chart)) ''All Countries'' = Some 0"
proof -
  have v: "validate_fail_input (allowed_fails_of sample_fail) ''Landing'' = Inr ''Launch''"
    unfolding sample_allowed_fails by (simp add: validate_fail_input_def)
  have r: "regex_free ''Launch''" by (simp add: regex_free_def)
  have ops: "\<forall>r \<in> set (matching_failures sample_data ''Launch''). operator r \<noteq> None"
    unfolding sample_matching by (simp add: sample_row_def)
  have n: "country_count (matching_failures sample_data ''Launch'') ''All Countries'' = 0"
    unfolding sample_matching by (simp add: eval_simps)
  from get_bar_chart_all_countries_bar [OF sample_fail_rows v r] ops n sample_text_operator
  show ?thesis by auto
qed

subsection \<open>The charts handler\<close>




lemma create_scatter_empty: "create_scatter [] title = Inl ValueError"
  by (simp add: create_scatter_def)



lemma get_charts_by_country_unfold:
  assumes "\<forall>r \<in> set data. \<forall>ts. launch_date r = Some ts \<longrightarrow> valid_timestamp ts"
    and "1000 \<le> mn" "mn \<le> 9999" "1000 \<le> mx" "mx \<le> 9999"
    and "validate_year_range mn mx s e = [lo, hi]"
  shows "get_charts_by_country re_compile Datetime64 data mn mx entered_country [s, e] =
     charts_after_year_filter re_compile data (validate_country_input entered_country)
       (Inr (filter (year_in_range lo hi) data))"
proof -
  from assms(2-6) have "1000 \<le> lo \<and> lo \<le> 9999 \<and> 1000 \<le> hi \<and> hi \<le> 9999"
    by (rule validated_years_four_digits)
  with assms(1) have "year_filter Datetime64 data [lo, hi] = Inr (filter (year_in_range lo hi) data)"
    by (simp add: year_filter_numeric)
  with assms(6) show ?thesis by (simp add: get_charts_by_country_def)
qed

lemma get_charts_by_country_caught:
  "get_charts_by_country re_compile Object data mn mx entered_country [s, e]
     = Inr (Message ''An error occurred during data manipulation.'')"
  by (simp add: get_charts_by_country_def year_filter_def charts_after_year_filter_def)

lemma charts_after_year_filter_all:
  "charts_after_year_filter re_compile data ''All Countries'' (Inr year_df) =
     (case create_scatter year_df ''Launch Date vs. Number of Launches in Total'' of
        Inl e \<Rightarrow> Inl e
      | Inr scatter \<Rightarrow>
          Inr (Charts
            (create_pie (value_counts (map outcome year_df)) ''Total Mission Outcomes'')
            scatter
            (create_heatmap (create_matrix_for_heatmap data year_df))))"
  by (simp add: charts_after_year_filter_def)

lemma charts_after_year_filter_country:
  assumes "country \<noteq> ''All Countries''" "regex_free country"
  shows "charts_after_year_filter re_compile data country (Inr year_df) =
     (if \<not> text_column data operator then Inl AttributeError
      else if \<exists>r \<in> set year_df. operator r = None then Inl ValueError
      else (case create_scatter (filter (operator_contains country) year_df)
                   (''Launch Date vs. Number of Launches for '' @ country) of
              Inl e \<Rightarrow> Inl e
            | Inr scatter \<Rightarrow>
                Inr (Charts
                  (create_pie (value_counts (map outcome (filter (operator_contains country) year_df)))
                     (''Mission outcomes for '' @ country))
                  scatter
                  (create_heatmap
                     (create_matrix_for_heatmap data (filter (operator_contains country) year_df))))))"
  using assms by (auto simp: charts_after_year_filter_def contains_rows_operator)


lemma sample_data_valid:
  "\<forall>r \<in> set sample_data. \<forall>ts. launch_date r = Some ts \<longrightarrow> valid_timestamp ts"
  by (simp add: sample_data_def sample_row_def midnight_def valid_timestamp_def
      days_in_month_def is_leap_def)

lemma sample_missing_operator_valid:
  "\<forall>r \<in> set sample_missing_operator. \<forall>ts. launch_date r = Some ts \<longrightarrow> valid_timestamp ts"
  by (simp add: sample_missing_operator_def sample_data_def sample_row_def midnight_def
      valid_timestamp_def days_in_month_def is_leap_def)




lemma sample_empty_years: "filter (year_in_range 1967 1968) sample_data = []"
  by (simp add: sample_data_def sample_row_def midnight_def year_in_range_def)

text \<open>
  C4 fails. With a row in the year range whose Operator cell is empty and the country
  Japan, the country filter raises ValueError after the \<open>try\<close> block and the exception
  leaves the handler. With a year range that holds no launch, the scatter builder raises
  ValueError, which leaves the handler as well. Only an exception of the year filter
  itself, as on a Launch Date column that is not a datetime column, becomes the message.
\<close>

theorem get_charts_by_country_uncaught_error:
  "get_charts_by_country no_regex Datetime64 sample_missing_operator 1966 1972 ''Japan'' [1966, 1972]
     = Inl ValueError
   \<and> get_charts_by_country no_regex Datetime64 sample_data 1966 1972 ''All Countries'' [1967, 1968]
     = Inl ValueError
   \<and> get_charts_by_country no_regex Object sample_data 1966 1972 ''All Countries'' [1966, 1972]
     = Inr (Message ''An error occurred during data manipulation.'')"
proof -
  have b: "(1000::int) \<le> 1966" "(1966::int) \<le> 9999" "(1000::int) \<le> 1972" "(1972::int) \<le> 9999"
    by simp_all
  have v: "validate_year_range 1966 1972 1966 1972 = [1966, 1972]"
    by (simp add: validate_year_range_def)
  have c: "validate_country_input ''Japan'' = ''Japan''"
    by (simp add: validate_country_input_def allowed_countries_def)
  have rf: "regex_free ''Japan''" by (simp add: regex_free_def)
  have j: "''Japan'' \<noteq> ''All Countries''" by simp
  have t: "text_column sample_missing_operator operator"
    by (simp add: text_column_def sample_missing_operator_def sample_data_def sample_row_def)
  have m: "\<exists>r \<in> set (filter (year_in_range 1966 1972) sample_missing_operator). operator r = None"
    by (simp add: sample_missing_operator_def sample_data_def sample_row_def midnight_def
        year_in_range_def)
  have first: "get_charts_by_country no_regex Datetime64 sample_missing_operator 1966 1972 ''Japan''
      [1966, 1972] = Inl ValueError"
    unfolding get_charts_by_country_unfold [OF sample_missing_operator_valid b v] c
      charts_after_year_filter_country [OF j rf]
    using t m by simp
  have v2: "validate_year_range 1966 1972 1967 1968 = [1967, 1968]"
    by (simp add: validate_year_range_def)
  have a: "validate_country_input ''All Countries'' = ''All Countries''"
    by (simp add: validate_country_input_def allowed_countries_def)
  have second: "get_charts_by_country no_regex Datetime64 sample_data 1966 1972 ''All Countries''
      [1967, 1968] = Inl ValueError"
    unfolding get_charts_by_country_unfold [OF sample_data_valid b v2] a
      charts_after_year_filter_all sample_empty_years
    by (simp add: create_scatter_empty)
  from first second show ?thesis
    by (simp add: get_charts_by_country_caught)
qed

end
